theory Spec2Isabelle
  imports Complex_Main "HOL-Library.Word"
begin

section \<open>Values of the Go runtime\<close>

text \<open>
  A Go \<^verbatim>\<open>float64\<close>: a finite value (the real number it denotes), the two infinities
  or NaN. \<open>f64_ge\<close> is Go's \<^verbatim>\<open>>=\<close> on \<^verbatim>\<open>float64\<close>: every comparison with NaN is
  false.
\<close>

datatype float64 = Fin real | PosInf | NegInf | NaN

fun f64_ge :: "float64 \<Rightarrow> float64 \<Rightarrow> bool" where
  "f64_ge NaN _ = False"
| "f64_ge _ NaN = False"
| "f64_ge PosInf _ = True"
| "f64_ge NegInf NegInf = True"
| "f64_ge NegInf _ = False"
| "f64_ge (Fin a) PosInf = False"
| "f64_ge (Fin a) NegInf = True"
| "f64_ge (Fin a) (Fin b) = (b \<le> a)"

text \<open>
  A Go \<^verbatim>\<open>float32\<close>, held as the \<^verbatim>\<open>float64\<close> value it converts to: the conversion
  \<^verbatim>\<open>float64(x)\<close> of a \<^verbatim>\<open>float32\<close> is exact, so it is the selector \<open>to_float64\<close>.
  The narrowing conversion \<^verbatim>\<open>float32(v)\<close> rounds and is a function of the library
  record \<open>Lib\<close> below.
\<close>

datatype float32 = F32 (to_float64: float64)

type_synonym bytes = "char list"

text \<open>
  Go's \<^verbatim>\<open>any\<close>, for the dynamic types a column value or a decoded JSON value can have.
  A type assertion \<^verbatim>\<open>v.(T)\<close> is a match on the constructor.
\<close>

datatype any =
    ANil
  | AString string
  | ABytes bytes
  | AInt64 int
  | ABool bool
  | AFloat32 float32
  | AFloat64 float64
  | AArray "any list"
  | AObject "(string \<times> any) list"

text \<open>
  An \<^verbatim>\<open>error\<close> value is its message. \<^verbatim>\<open>fmt.Errorf("prefix: %w", err)\<close> is
  \<open>wrapError\<close>.
\<close>

datatype error = Error (errorMsg: string)

definition wrapError :: "string \<Rightarrow> error \<Rightarrow> error" where
  "wrapError prefix err = Error (prefix @ errorMsg err)"

section \<open>Documents\<close>

text \<open>
  \<^verbatim>\<open>schema.Document\<close> of the eino framework: an identifier, the text and a metadata
  map. The document's score attribute is the metadata entry \<^verbatim>\<open>_score\<close>, which
  \<^verbatim>\<open>WithScore\<close> writes; a nil map reads as the empty map.
\<close>

record Document =
  ID :: string
  Content :: string
  MetaData :: "string \<rightharpoonup> any"

definition WithScore :: "Document \<Rightarrow> float64 \<Rightarrow> Document" where
  "WithScore doc score = doc\<lparr>MetaData := (MetaData doc)(''_score'' \<mapsto> AFloat64 score)\<rparr>"

section \<open>Score threshold\<close>

text \<open>
  \<^verbatim>\<open>Retriever.applyScoreThreshold\<close> (retriever.go). The loop
  \<^verbatim>\<open>for _, doc := range docs\<close> appends to \<^verbatim>\<open>filtered\<close> every document for which
  \<^verbatim>\<open>doc.MetaData["score"].(float64)\<close> succeeds with a value \<^verbatim>\<open>>= *threshold\<close>;
  \<open>scoreLoop\<close> is that loop, with \<^verbatim>\<open>filtered\<close> as its accumulator. A nil
  threshold returns the slice as it is.
\<close>

fun scoreLoop :: "Document list \<Rightarrow> float64 \<Rightarrow> Document list \<Rightarrow> Document list" where
  "scoreLoop [] threshold filtered = filtered"
| "scoreLoop (doc # docs) threshold filtered =
     (case MetaData doc ''score'' of
        Some (AFloat64 score) \<Rightarrow>
          (if f64_ge score threshold then scoreLoop docs threshold (filtered @ [doc])
           else scoreLoop docs threshold filtered)
      | _ \<Rightarrow> scoreLoop docs threshold filtered)"

definition applyScoreThreshold :: "Document list \<Rightarrow> float64 option \<Rightarrow> Document list" where
  "applyScoreThreshold docs threshold =
     (case threshold of
        None \<Rightarrow> docs
      | Some t \<Rightarrow> scoreLoop docs t [])"

text \<open>
  The documents the threshold keeps: those whose \<^verbatim>\<open>score\<close> metadata entry is a
  \<^verbatim>\<open>float64\<close> at or above the threshold.
\<close>

definition scoreAtLeast :: "float64 \<Rightarrow> Document \<Rightarrow> bool" where
  "scoreAtLeast t doc = (\<exists>s. MetaData doc ''score'' = Some (AFloat64 s) \<and> f64_ge s t)"

section \<open>Library functions\<close>

text \<open>
  What the code calls in the Go runtime and in the libraries it imports, taken as given:
  \<^item> \<open>float32\<close>: the conversion \<^verbatim>\<open>float32(v)\<close> of a \<^verbatim>\<open>float64\<close>;
  \<^item> \<open>Sprint\<close>: \<^verbatim>\<open>fmt.Sprintf("%v", v)\<close>;
  \<^item> \<open>Unmarshal\<close>: \<^verbatim>\<open>sonic.Unmarshal(b, &m)\<close> into a \<^verbatim>\<open>map[string]any\<close>, \<open>None\<close> when
    it returns an error;
  \<^item> \<open>GetAsString\<close>: \<^verbatim>\<open>column.GetAsString(i)\<close> on the values of a column, \<open>None\<close>
    when it returns an error;
  \<^item> \<open>NewSliceSparseEmbedding\<close>: \<^verbatim>\<open>entity.NewSliceSparseEmbedding(indices, values)\<close>.
\<close>

datatype Vector =
    FloatVector "float32 list"
  | SparseEmbeddingVector "(32 word \<times> float32) list"

record Lib =
  float32 :: "float64 \<Rightarrow> float32"
  Sprint :: "any \<Rightarrow> string"
  Unmarshal :: "bytes \<Rightarrow> (string \<rightharpoonup> any) option"
  GetAsString :: "any list \<Rightarrow> nat \<Rightarrow> string option"
  NewSliceSparseEmbedding :: "32 word list \<Rightarrow> float32 list \<Rightarrow> error + Vector"

section \<open>Call options\<close>

text \<open>
  An embedder (\<^verbatim>\<open>embedding.Embedder\<close>) is its \<^verbatim>\<open>EmbedStrings\<close>; a sparse embedder
  (\<^verbatim>\<open>SparseEmbedder\<close>, types.go) returns one \<^verbatim>\<open>map[int]float64\<close> per text, held as
  the list of its entries in the order a \<^verbatim>\<open>range\<close> loop visits them (the keys are
  distinct, the length is \<^verbatim>\<open>len\<close> of the map). A nil interface value is \<open>None\<close>.
\<close>

type_synonym Embedder = "string list \<Rightarrow> error + float64 list list"

type_synonym SparseEmbedder = "string list \<Rightarrow> error + (int \<times> float64) list list"

text \<open>
  \<^verbatim>\<open>retriever.Options\<close> of the eino framework (the common options), with its pointer
  fields as options; the field \<^verbatim>\<open>DSLInfo\<close> is not read by this code and is left out.
  The fields carry the prefix \<open>opt\<close> to keep them apart from the configuration's.
\<close>

record Options =
  optIndex :: "string option"
  optSubIndex :: "string option"
  optTopK :: "int option"
  optScoreThreshold :: "float64 option"
  optEmbedding :: "Embedder option"

text \<open>
  Modelled from the spec: the implementation-specific call options of this package
  (\<^verbatim>\<open>ImplOptions\<close>, \<^verbatim>\<open>WithFilter\<close>, \<^verbatim>\<open>WithGrouping\<close>) are declared in a file that is
  not among the sources; the fields are the ones the builders read (\<^verbatim>\<open>io.Filter\<close>,
  \<^verbatim>\<open>io.Grouping.GroupByField\<close>, \<^verbatim>\<open>GroupSize\<close>, \<^verbatim>\<open>StrictGroupSize\<close>), the
  constructors the ones the tests call (\<^verbatim>\<open>WithFilter("id > 10")\<close>,
  \<^verbatim>\<open>WithGrouping("category", 3, true)\<close>): an explicit filter expression and result
  grouping by field with group size and strictness flag.
\<close>

record GroupingConfig =
  GroupByField :: string
  GroupSize :: int
  StrictGroupSize :: bool

record ImplOptions =
  Filter :: string
  Grouping :: "GroupingConfig option"

text \<open>
  A call option (\<^verbatim>\<open>retriever.Option\<close>): a common option of the framework, which
  writes one field of \<open>Options\<close>, or an implementation-specific option of this package,
  which writes one field of \<open>ImplOptions\<close>.
\<close>

datatype RetrieverOption =
    WithIndex string
  | WithSubIndex string
  | WithTopK int
  | WithScoreThreshold float64
  | WithEmbedding "Embedder option"
  | WithFilter string
  | WithGrouping string int bool

fun applyCommon :: "RetrieverOption \<Rightarrow> Options \<Rightarrow> Options" where
  "applyCommon (WithIndex s) base = base\<lparr>optIndex := Some s\<rparr>"
| "applyCommon (WithSubIndex s) base = base\<lparr>optSubIndex := Some s\<rparr>"
| "applyCommon (WithTopK k) base = base\<lparr>optTopK := Some k\<rparr>"
| "applyCommon (WithScoreThreshold t) base = base\<lparr>optScoreThreshold := Some t\<rparr>"
| "applyCommon (WithEmbedding e) base = base\<lparr>optEmbedding := e\<rparr>"
| "applyCommon (WithFilter f) base = base"
| "applyCommon (WithGrouping g n s) base = base"

fun applyImpl :: "RetrieverOption \<Rightarrow> ImplOptions \<Rightarrow> ImplOptions" where
  "applyImpl (WithFilter f) io = io\<lparr>Filter := f\<rparr>"
| "applyImpl (WithGrouping g n s) io =
     io\<lparr>Grouping := Some \<lparr>GroupByField = g, GroupSize = n, StrictGroupSize = s\<rparr>\<rparr>"
| "applyImpl _ io = io"

text \<open>
  \<^verbatim>\<open>retriever.GetCommonOptions(base, opts...)\<close> and
  \<^verbatim>\<open>retriever.GetImplSpecificOptions(base, opts...)\<close>: the options applied to the base
  in call order.
\<close>

definition GetCommonOptions :: "Options \<Rightarrow> RetrieverOption list \<Rightarrow> Options" where
  "GetCommonOptions base opts = fold applyCommon opts base"

definition GetImplSpecificOptions :: "ImplOptions \<Rightarrow> RetrieverOption list \<Rightarrow> ImplOptions" where
  "GetImplSpecificOptions base opts = fold applyImpl opts base"

text \<open>\<^verbatim>\<open>&milvus2.ImplOptions{}\<close> and \<^verbatim>\<open>&retriever.Options{TopK: &conf.TopK}\<close>.\<close>

definition emptyImplOptions :: ImplOptions where
  "emptyImplOptions = \<lparr>Filter = [], Grouping = None\<rparr>"

definition topKOptions :: "int \<Rightarrow> Options" where
  "topKOptions k =
     \<lparr>optIndex = None, optSubIndex = None, optTopK = Some k, optScoreThreshold = None,
      optEmbedding = None\<rparr>"

section \<open>Result sets\<close>

text \<open>
  A column of a result set (\<^verbatim>\<open>column.Column\<close>): its name and its values.
  \<^verbatim>\<open>col.Get(idx)\<close> returns an error when the index is out of range, here \<open>None\<close>.
\<close>

record Column =
  Name :: string
  Data :: "any list"

definition Get :: "Column \<Rightarrow> nat \<Rightarrow> any option" where
  "Get col idx = (if idx < length (Data col) then Some (Data col ! idx) else None)"

text \<open>
  \<^verbatim>\<open>milvusclient.ResultSet\<close>, with the fields this code reads. \<^verbatim>\<open>ResultCount\<close>,
  a Go \<^verbatim>\<open>int\<close>, is the number of rows and is held as a natural number.
  \<^verbatim>\<open>GetColumn\<close> returns the first column of that name, or nil.
\<close>

record ResultSet =
  ResultCount :: nat
  Scores :: "float32 list"
  Fields :: "Column list"

definition GetColumn :: "ResultSet \<Rightarrow> string \<Rightarrow> Column option" where
  "GetColumn rs fieldName = find (\<lambda>col. Name col = fieldName) (Fields rs)"

text \<open>
  Modelled from the spec: the package's constants \<^verbatim>\<open>defaultIDField\<close>,
  \<^verbatim>\<open>defaultContentField\<close> and \<^verbatim>\<open>defaultMetadataField\<close> are declared in a file that is
  not among the sources. They are the reserved names of the primary-key, content and
  metadata columns; the values are the column names of the package's tests.
\<close>

definition defaultIDField :: string where
  "defaultIDField = ''id''"

definition defaultContentField :: string where
  "defaultContentField = ''content''"

definition defaultMetadataField :: string where
  "defaultMetadataField = ''metadata''"

section \<open>Converting a query result\<close>

text \<open>
  \<^verbatim>\<open>Retriever.queryResultSetToDocuments\<close> (retriever.go). \<open>getField\<close> is its local
  closure: \<open>None\<close> is \<^verbatim>\<open>(nil, false)\<close>, the column missing or \<^verbatim>\<open>Get\<close> failing.
  \<open>queryRow\<close> is one pass of the loop over the rows, \<^verbatim>\<open>docs\<close> its accumulator: a row
  without an id is passed over by \<^verbatim>\<open>continue\<close>. The range loop that copies the decoded
  map into the fresh \<^verbatim>\<open>meta\<close> is \<open>Map.empty ++ m\<close>. The function always returns a
  nil error.
\<close>

definition getField :: "ResultSet \<Rightarrow> string \<Rightarrow> nat \<Rightarrow> any option" where
  "getField rs fieldName idx =
     (case GetColumn rs fieldName of
        None \<Rightarrow> None
      | Some col \<Rightarrow> Get col idx)"

definition queryContent :: "Lib \<Rightarrow> ResultSet \<Rightarrow> nat \<Rightarrow> string" where
  "queryContent lib rs i =
     (case getField rs defaultContentField i of
        None \<Rightarrow> []
      | Some contentVal \<Rightarrow> (if contentVal \<noteq> ANil then Sprint lib contentVal else []))"

definition queryMeta :: "Lib \<Rightarrow> ResultSet \<Rightarrow> nat \<Rightarrow> (string \<rightharpoonup> any)" where
  "queryMeta lib rs i =
     (case getField rs defaultMetadataField i of
        Some (ABytes fieldBytes) \<Rightarrow>
          (case Unmarshal lib fieldBytes of
             Some m \<Rightarrow> Map.empty ++ m
           | None \<Rightarrow> Map.empty)
      | _ \<Rightarrow> Map.empty)"

definition queryRow :: "Lib \<Rightarrow> ResultSet \<Rightarrow> nat \<Rightarrow> Document list \<Rightarrow> Document list" where
  "queryRow lib rs i docs =
     (case getField rs defaultIDField i of
        None \<Rightarrow> docs
      | Some idVal \<Rightarrow>
          docs @ [\<lparr>ID = Sprint lib idVal, Content = queryContent lib rs i,
                   MetaData = queryMeta lib rs i\<rparr>])"

definition queryResultSetToDocuments :: "Lib \<Rightarrow> ResultSet \<Rightarrow> error + Document list" where
  "queryResultSetToDocuments lib rs =
     Inr (fold (queryRow lib rs) [0..<ResultCount rs] [])"

section \<open>The default document converter\<close>

text \<open>
  \<^verbatim>\<open>defaultDocumentConverter\<close> (retriever.go). For row \<open>i\<close> the document starts with
  an empty metadata map, gets the score of the row when there is one (as the metadata
  entry \<^verbatim>\<open>score\<close> and through \<^verbatim>\<open>WithScore\<close>), and then takes each field of the result
  set in turn (\<open>convertField\<close>, the body of the inner loop with its \<^verbatim>\<open>switch\<close>). Every
  row appends its document; the function always returns a nil error.
\<close>

definition convertField :: "Lib \<Rightarrow> nat \<Rightarrow> Column \<Rightarrow> Document \<Rightarrow> Document" where
  "convertField lib i field doc =
     (case Get field i of
        None \<Rightarrow> doc
      | Some val \<Rightarrow>
          if Name field = ''id'' then
            (case val of
               AString s \<Rightarrow> doc\<lparr>ID := s\<rparr>
             | _ \<Rightarrow> (case GetAsString lib (Data field) i of
                       Some idStr \<Rightarrow> doc\<lparr>ID := idStr\<rparr>
                     | None \<Rightarrow> doc))
          else if Name field = defaultContentField then
            (case val of
               AString s \<Rightarrow> doc\<lparr>Content := s\<rparr>
             | _ \<Rightarrow> (case GetAsString lib (Data field) i of
                       Some contentStr \<Rightarrow> doc\<lparr>Content := contentStr\<rparr>
                     | None \<Rightarrow> doc))
          else if Name field = defaultMetadataField then
            (case val of
               ABytes metaBytes \<Rightarrow>
                 (case Unmarshal lib metaBytes of
                    Some meta \<Rightarrow> doc\<lparr>MetaData := MetaData doc ++ meta\<rparr>
                  | None \<Rightarrow> doc)
             | _ \<Rightarrow> doc)
          else doc\<lparr>MetaData := (MetaData doc)(Name field \<mapsto> val)\<rparr>)"

definition newRowDocument :: "ResultSet \<Rightarrow> nat \<Rightarrow> Document" where
  "newRowDocument rs i =
     (if i < length (Scores rs) then
        WithScore
          \<lparr>ID = [], Content = [],
           MetaData = [''score'' \<mapsto> AFloat64 (to_float64 (Scores rs ! i))]\<rparr>
          (to_float64 (Scores rs ! i))
      else \<lparr>ID = [], Content = [], MetaData = Map.empty\<rparr>)"

definition convertRow :: "Lib \<Rightarrow> ResultSet \<Rightarrow> nat \<Rightarrow> Document" where
  "convertRow lib rs i = fold (convertField lib i) (Fields rs) (newRowDocument rs i)"

definition defaultDocumentConverter :: "Lib \<Rightarrow> ResultSet \<Rightarrow> error + Document list" where
  "defaultDocumentConverter lib rs =
     Inr (fold (\<lambda>i docs. docs @ [convertRow lib rs i]) [0..<ResultCount rs] [])"

section \<open>Embedding the query\<close>

text \<open>
  \<^verbatim>\<open>Retriever.embedQuery\<close> (retriever.go). \<open>narrowLoop\<close> is its loop
  \<^verbatim>\<open>for i, v := range vectors[0] { queryVector[i] = float32(v) }\<close> over the slice made
  by \<^verbatim>\<open>make([]float32, len(vectors[0]))\<close>, which holds zeros. The count in the last
  error message is printed by \<open>Sprint\<close> (\<^verbatim>\<open>%d\<close> and \<^verbatim>\<open>%v\<close> print an int alike).
\<close>

definition narrowLoop :: "Lib \<Rightarrow> float64 list \<Rightarrow> float32 list" where
  "narrowLoop lib vec =
     fold (\<lambda>(i, v) queryVector. queryVector[i := float32 lib v])
       (zip [0..<length vec] vec)
       (replicate (length vec) (F32 (Fin 0)))"

definition embedQuery :: "Lib \<Rightarrow> Embedder option \<Rightarrow> string \<Rightarrow> error + float32 list" where
  "embedQuery lib emb query =
     (case emb of
        None \<Rightarrow> Inl (Error ''[Retriever] embedding not provided'')
      | Some embedStrings \<Rightarrow>
          (case embedStrings [query] of
             Inl err \<Rightarrow> Inl (wrapError ''[Retriever] failed to embed query: '' err)
           | Inr vectors \<Rightarrow>
               if length vectors \<noteq> 1 then
                 Inl (Error (''[Retriever] invalid embedding result: expected 1, got ''
                             @ Sprint lib (AInt64 (int (length vectors)))))
               else Inr (narrowLoop lib (vectors ! 0))))"

text \<open>\<^verbatim>\<open>Retriever.embedSparseQuery\<close> (retriever.go).\<close>

definition embedSparseQuery ::
  "Lib \<Rightarrow> SparseEmbedder option \<Rightarrow> string \<Rightarrow> error + (int \<times> float64) list" where
  "embedSparseQuery lib emb query =
     (case emb of
        None \<Rightarrow> Inl (Error ''[Retriever] sparse embedding not provided'')
      | Some embedStrings \<Rightarrow>
          (case embedStrings [query] of
             Inl err \<Rightarrow> Inl (wrapError ''[Retriever] failed to embed sparse query: '' err)
           | Inr vectors \<Rightarrow>
               if length vectors \<noteq> 1 then
                 Inl (Error (''[Retriever] invalid sparse embedding result: expected 1, got ''
                             @ Sprint lib (AInt64 (int (length vectors)))))
               else Inr (vectors ! 0)))"

section \<open>Configuration\<close>

text \<open>
  \<^verbatim>\<open>RetrieverConfig\<close> (retriever.go), without the client fields. Its field
  \<^verbatim>\<open>SearchMode\<close> is held beside it, in the record \<open>Retriever\<close> below: a search mode
  is a function of the configuration, and a HOL record cannot hold a function of itself.
  The builders read none but the fields kept here.
\<close>

type_synonym MetricType = string

type_synonym VectorType = string

definition DenseVector :: VectorType where
  "DenseVector = ''dense''"

definition SparseVector :: VectorType where
  "SparseVector = ''sparse''"

record RetrieverConfig =
  Collection :: string
  Partitions :: "string list"
  VectorField :: string
  OutputFields :: "string list"
  TopK :: int
  ScoreThreshold :: "float64 option"
  ConsistencyLevel :: int
  DocumentConverter :: "ResultSet \<Rightarrow> error + Document list"
  Embedding :: "Embedder option"
  SparseEmbedding :: "SparseEmbedder option"

section \<open>Scalar mode\<close>

text \<open>
  The query request of the Milvus client, with the fields \<^verbatim>\<open>Scalar.BuildQueryOption\<close>
  sets: \<^verbatim>\<open>NewQueryOption(collection)\<close>, \<^verbatim>\<open>WithFilter\<close>, \<^verbatim>\<open>WithOutputFields\<close>,
  \<^verbatim>\<open>WithLimit\<close>, \<^verbatim>\<open>WithPartitions\<close>, \<^verbatim>\<open>WithConsistencyLevel\<close>.
\<close>

record QueryOption =
  queryCollection :: string
  queryExpr :: string
  queryOutputFields :: "string list"
  queryLimit :: int
  queryPartitions :: "string list"
  queryConsistencyLevel :: "int option"

text \<open>
  \<^verbatim>\<open>Scalar.BuildQueryOption\<close> (search_mode/scalar.go). \<open>scalarExpr\<close> is the part
  that combines the query and the filter of the call options.
\<close>

definition scalarExpr :: "string \<Rightarrow> string \<Rightarrow> string" where
  "scalarExpr query flt =
     (if flt \<noteq> [] then
        (if query \<noteq> [] then ''('' @ query @ '') and ('' @ flt @ '')''
         else flt)
      else query)"

definition Scalar_BuildQueryOption ::
  "RetrieverConfig \<Rightarrow> string \<Rightarrow> RetrieverOption list \<Rightarrow> error + QueryOption" where
  "Scalar_BuildQueryOption conf query opts =
     (let io = GetImplSpecificOptions emptyImplOptions opts;
          co = GetCommonOptions (topKOptions (TopK conf)) opts;
          finalTopK = (case optTopK co of Some k \<Rightarrow> k | None \<Rightarrow> TopK conf);
          expr = scalarExpr query (Filter io)
      in Inr \<lparr>queryCollection = Collection conf,
               queryExpr = expr,
               queryOutputFields = OutputFields conf,
               queryLimit = finalTopK,
               queryPartitions = (if length (Partitions conf) > 0 then Partitions conf else []),
               queryConsistencyLevel =
                 (if ConsistencyLevel conf > 0 then Some (ConsistencyLevel conf) else None)\<rparr>)"

section \<open>Hybrid mode\<close>

text \<open>
  \<^verbatim>\<open>SubRequest\<close> and \<^verbatim>\<open>Hybrid\<close> (search_mode/hybrid.go). The fields of
  \<^verbatim>\<open>SubRequest\<close> carry the prefix \<open>req\<close>, and \<^verbatim>\<open>Hybrid.TopK\<close> is \<open>hybridTopK\<close>, to
  keep them apart from the configuration's. \<^verbatim>\<open>SearchParams\<close> is a
  \<^verbatim>\<open>map[string]string\<close>.
\<close>

record SubRequest =
  reqVectorField :: string
  reqMetricType :: MetricType
  reqTopK :: int
  reqSearchParams :: "string \<rightharpoonup> string"
  reqVectorType :: VectorType

datatype Reranker = NilReranker | RRFReranker | WeightedReranker "float64 list"

record Hybrid =
  SubRequests :: "SubRequest list"
  hybridReranker :: Reranker
  hybridTopK :: int

text \<open>
  The requests of the Milvus client, with the fields the builder sets:
  \<^verbatim>\<open>NewAnnRequest(field, limit, vector)\<close> and its \<^verbatim>\<open>WithSearchParam\<close>,
  \<^verbatim>\<open>WithFilter\<close>, \<^verbatim>\<open>WithGroupByField\<close>, \<^verbatim>\<open>WithGroupSize\<close>,
  \<^verbatim>\<open>WithStrictGroupSize\<close>; \<^verbatim>\<open>NewHybridSearchOption(collection, limit, requests...)\<close>
  and its \<^verbatim>\<open>WithReranker\<close>, \<^verbatim>\<open>WithOutputFields\<close>, \<^verbatim>\<open>WithPartitions\<close>.
\<close>

record AnnRequest =
  annField :: string
  annLimit :: int
  annVector :: Vector
  annSearchParams :: "string \<rightharpoonup> string"
  annFilter :: string
  annGroupByField :: string
  annGroupSize :: int
  annStrictGroupSize :: bool

definition NewAnnRequest :: "string \<Rightarrow> int \<Rightarrow> Vector \<Rightarrow> AnnRequest" where
  "NewAnnRequest field limit vec =
     \<lparr>annField = field, annLimit = limit, annVector = vec, annSearchParams = Map.empty,
      annFilter = [], annGroupByField = [], annGroupSize = 0, annStrictGroupSize = False\<rparr>"

record HybridSearchOption =
  hybridCollection :: string
  hybridLimit :: int
  hybridRequests :: "AnnRequest list"
  hybridRanker :: Reranker
  hybridOutputFields :: "string list"
  hybridPartitions :: "string list"

record SearchOption =
  searchCollection :: string
  searchLimit :: int
  searchVectors :: "Vector list"
  searchANNSField :: string
  searchOutputFields :: "string list"
  searchPartitions :: "string list"
  searchFilter :: string
  searchGrouping :: "GroupingConfig option"

text \<open>
  \<^verbatim>\<open>Hybrid.BuildSearchOption\<close> (search_mode/hybrid.go): it returns
  \<^verbatim>\<open>nil, fmt.Errorf("Hybrid search mode requires BuildHybridSearchOption")\<close>.
\<close>

definition Hybrid_BuildSearchOption ::
  "Hybrid \<Rightarrow> RetrieverConfig \<Rightarrow> float32 list \<Rightarrow> RetrieverOption list \<Rightarrow> error + SearchOption" where
  "Hybrid_BuildSearchOption h conf queryVector opts =
     Inl (Error ''Hybrid search mode requires BuildHybridSearchOption'')"

text \<open>
  \<^verbatim>\<open>Hybrid.BuildHybridSearchOption\<close> (search_mode/hybrid.go), in its parts.
  \<open>hybridFinalTopK\<close> is the resolution of \<^verbatim>\<open>finalTopK\<close>: the three statements of
  the source in their order, \<open>co\<close> being the common options read over the base
  \<^verbatim>\<open>&retriever.Options{TopK: &conf.TopK}\<close>.
\<close>

definition hybridFinalTopK :: "Hybrid \<Rightarrow> RetrieverConfig \<Rightarrow> Options \<Rightarrow> int" where
  "hybridFinalTopK h conf co =
     (let finalTopK = TopK conf;
          finalTopK = (if hybridTopK h > 0 then hybridTopK h else finalTopK);
          finalTopK = (case optTopK co of Some k \<Rightarrow> k | None \<Rightarrow> finalTopK)
      in finalTopK)"

text \<open>
  \<open>sparseLoop\<close> is the loop that converts the sparse query vector: for every entry it
  appends \<^verbatim>\<open>uint32(k)\<close> to \<^verbatim>\<open>indices\<close> and \<^verbatim>\<open>float32(v)\<close> to \<^verbatim>\<open>values\<close>.
\<close>

fun sparseLoop ::
  "Lib \<Rightarrow> (int \<times> float64) list \<Rightarrow> 32 word list \<Rightarrow> float32 list
     \<Rightarrow> 32 word list \<times> float32 list" where
  "sparseLoop lib [] indices vals = (indices, vals)"
| "sparseLoop lib ((k, v) # kvs) indices vals =
     sparseLoop lib kvs (indices @ [word_of_int k]) (vals @ [float32 lib v])"

text \<open>
  \<open>decorate\<close> is the tail of the loop body, from \<^verbatim>\<open>// Apply search params\<close> on: the
  search parameters of the sub-request, its metric type, and the filter and grouping of
  the call options.
\<close>

definition decorate :: "SubRequest \<Rightarrow> ImplOptions \<Rightarrow> AnnRequest \<Rightarrow> AnnRequest" where
  "decorate req io annReq =
     (let annReq = annReq\<lparr>annSearchParams := annSearchParams annReq ++ reqSearchParams req\<rparr>;
          annReq = (if reqMetricType req \<noteq> []
                    then annReq\<lparr>annSearchParams :=
                           (annSearchParams annReq)(''metric_type'' \<mapsto> reqMetricType req)\<rparr>
                    else annReq);
          annReq = (if Filter io \<noteq> [] then annReq\<lparr>annFilter := Filter io\<rparr> else annReq);
          annReq = (case Grouping io of
                      None \<Rightarrow> annReq
                    | Some g \<Rightarrow>
                        (let annReq = annReq\<lparr>annGroupByField := GroupByField g,
                                              annGroupSize := GroupSize g\<rparr>
                         in if StrictGroupSize g then annReq\<lparr>annStrictGroupSize := True\<rparr>
                            else annReq))
      in annReq)"

definition reqField :: "RetrieverConfig \<Rightarrow> SubRequest \<Rightarrow> string" where
  "reqField conf req = (if reqVectorField req = [] then VectorField conf else reqVectorField req)"

definition reqLimit :: "SubRequest \<Rightarrow> int" where
  "reqLimit req = (if reqTopK req \<le> 0 then 10 else reqTopK req)"

text \<open>
  \<open>annLoop\<close> is the loop over \<^verbatim>\<open>h.SubRequests\<close>, \<^verbatim>\<open>annRequests\<close> its accumulator:
  \<^verbatim>\<open>continue\<close> goes on with the accumulator as it is, the \<^verbatim>\<open>return nil, err\<close> of a
  failed sparse embedding ends the loop with the error.
\<close>

fun annLoop ::
  "Lib \<Rightarrow> RetrieverConfig \<Rightarrow> ImplOptions \<Rightarrow> float32 list \<Rightarrow> (int \<times> float64) list
     \<Rightarrow> SubRequest list \<Rightarrow> AnnRequest list \<Rightarrow> error + AnnRequest list" where
  "annLoop lib conf io queryVector querySparseVector [] annRequests = Inr annRequests"
| "annLoop lib conf io queryVector querySparseVector (req # reqs) annRequests =
     (if reqVectorType req = SparseVector then
        (if length querySparseVector = 0 then
           annLoop lib conf io queryVector querySparseVector reqs annRequests
         else
           (case sparseLoop lib querySparseVector [] [] of
              (indices, vals) \<Rightarrow>
                (case NewSliceSparseEmbedding lib indices vals of
                   Inl err \<Rightarrow> Inl (wrapError ''failed to create sparse embedding: '' err)
                 | Inr sparseEmb \<Rightarrow>
                     annLoop lib conf io queryVector querySparseVector reqs
                       (annRequests
                        @ [decorate req io
                             (NewAnnRequest (reqField conf req) (reqLimit req) sparseEmb)]))))
      else
        (if length queryVector = 0 then
           annLoop lib conf io queryVector querySparseVector reqs annRequests
         else
           annLoop lib conf io queryVector querySparseVector reqs
             (annRequests
              @ [decorate req io
                   (NewAnnRequest (reqField conf req) (reqLimit req)
                      (FloatVector queryVector))])))"

definition Hybrid_BuildHybridSearchOption ::
  "Lib \<Rightarrow> Hybrid \<Rightarrow> RetrieverConfig \<Rightarrow> float32 list \<Rightarrow> (int \<times> float64) list
     \<Rightarrow> RetrieverOption list \<Rightarrow> error + HybridSearchOption" where
  "Hybrid_BuildHybridSearchOption lib h conf queryVector querySparseVector opts =
     (let io = GetImplSpecificOptions emptyImplOptions opts;
          co = GetCommonOptions (topKOptions (TopK conf)) opts;
          finalTopK = hybridFinalTopK h conf co
      in case annLoop lib conf io queryVector querySparseVector (SubRequests h) [] of
           Inl err \<Rightarrow> Inl err
         | Inr annRequests \<Rightarrow>
             Inr \<lparr>hybridCollection = Collection conf,
                  hybridLimit = finalTopK,
                  hybridRequests = annRequests,
                  hybridRanker = hybridReranker h,
                  hybridOutputFields = OutputFields conf,
                  hybridPartitions =
                    (if length (Partitions conf) > 0 then Partitions conf else [])\<rparr>)"

section \<open>Search modes and the engine client\<close>

text \<open>
  The request that opens a search iterator (\<^verbatim>\<open>milvusclient.SearchIteratorOption\<close>);
  the retriever passes it from the mode's builder to the client and reads nothing of it.
\<close>

record SearchIteratorOption =
  iterCollection :: string
  iterVector :: Vector
  iterBatchSize :: int

text \<open>
  The search mode of a configuration, by the interface the type switch of
  \<^verbatim>\<open>Retrieve\<close> finds it to implement (search_mode.go): \<^verbatim>\<open>QuerySearchMode\<close>,
  \<^verbatim>\<open>HybridSearchMode\<close>, \<^verbatim>\<open>IteratorSearchMode\<close>, or none of them (the
  \<^verbatim>\<open>default\<close> case, a plain \<^verbatim>\<open>SearchMode\<close>). Each carries the builder the retriever
  calls on it.
\<close>

datatype SearchMode =
    QuerySearchMode
      "RetrieverConfig \<Rightarrow> string \<Rightarrow> RetrieverOption list \<Rightarrow> error + QueryOption"
  | HybridSearchMode
      "RetrieverConfig \<Rightarrow> float32 list \<Rightarrow> (int \<times> float64) list \<Rightarrow> RetrieverOption list
         \<Rightarrow> error + HybridSearchOption"
  | IteratorSearchMode
      "RetrieverConfig \<Rightarrow> float32 list \<Rightarrow> RetrieverOption list \<Rightarrow> error + SearchIteratorOption"
  | StandardSearchMode
      "RetrieverConfig \<Rightarrow> float32 list \<Rightarrow> RetrieverOption list \<Rightarrow> error + SearchOption"

text \<open>
  The engine client, by the calls the retriever makes: each takes a request and returns
  the engine's answer or an error. A search iterator is a state of type \<open>'it\<close>;
  \<^verbatim>\<open>iterator.Next(ctx)\<close> returns a batch or an error and moves the iterator on.
\<close>

record 'it Client =
  Query :: "QueryOption \<Rightarrow> error + ResultSet"
  HybridSearch :: "HybridSearchOption \<Rightarrow> error + ResultSet list"
  Search :: "SearchOption \<Rightarrow> error + ResultSet list"
  SearchIterator :: "SearchIteratorOption \<Rightarrow> error + 'it"
  Next :: "'it \<Rightarrow> (error + ResultSet) \<times> 'it"

record 'it Retriever =
  client :: "'it Client"
  config :: RetrieverConfig
  searchMode :: SearchMode

section \<open>Retrieval\<close>

text \<open>\<^verbatim>\<open>Retriever.retrieveQuery\<close> (retriever.go).\<close>

definition retrieveQuery ::
  "Lib \<Rightarrow> 'it Retriever
     \<Rightarrow> (RetrieverConfig \<Rightarrow> string \<Rightarrow> RetrieverOption list \<Rightarrow> error + QueryOption)
     \<Rightarrow> string \<Rightarrow> RetrieverOption list \<Rightarrow> error + Document list" where
  "retrieveQuery lib r BuildQueryOption query opts =
     (case BuildQueryOption (config r) query opts of
        Inl err \<Rightarrow> Inl (wrapError ''[Retriever] failed to build query option: '' err)
      | Inr queryOpt \<Rightarrow>
          (case Query (client r) queryOpt of
             Inl err \<Rightarrow> Inl (wrapError ''[Retriever] failed to execute query: '' err)
           | Inr resultSet \<Rightarrow> queryResultSetToDocuments lib resultSet))"

text \<open>
  \<^verbatim>\<open>Retriever.retrieveHybrid\<close> (retriever.go): the dense vector is embedded when the
  configuration has an embedder (with the embedder of the common options), the sparse
  one when it has a sparse embedder; a vector not embedded stays nil.
\<close>

definition retrieveHybrid ::
  "Lib \<Rightarrow> 'it Retriever
     \<Rightarrow> (RetrieverConfig \<Rightarrow> float32 list \<Rightarrow> (int \<times> float64) list \<Rightarrow> RetrieverOption list
          \<Rightarrow> error + HybridSearchOption)
     \<Rightarrow> Options \<Rightarrow> string \<Rightarrow> RetrieverOption list \<Rightarrow> error + Document list" where
  "retrieveHybrid lib r BuildHybridSearchOption co query opts =
     (case (if Embedding (config r) \<noteq> None then embedQuery lib (optEmbedding co) query
            else Inr []) of
        Inl err \<Rightarrow> Inl err
      | Inr queryVector \<Rightarrow>
          (case (if SparseEmbedding (config r) \<noteq> None
                 then embedSparseQuery lib (SparseEmbedding (config r)) query
                 else Inr []) of
             Inl err \<Rightarrow> Inl err
           | Inr querySparseVector \<Rightarrow>
               (case BuildHybridSearchOption (config r) queryVector querySparseVector opts of
                  Inl err \<Rightarrow>
                    Inl (wrapError ''[Retriever] failed to build hybrid search option: '' err)
                | Inr searchOpt \<Rightarrow>
                    (case HybridSearch (client r) searchOpt of
                       Inl err \<Rightarrow> Inl (wrapError ''[Retriever] hybrid search failed: '' err)
                     | Inr results \<Rightarrow>
                         if length results = 0 then Inr []
                         else DocumentConverter (config r) (results ! 0)))))"

text \<open>
  The loop of \<^verbatim>\<open>Retriever.retrieveIterator\<close>, \<^verbatim>\<open>allDocs\<close> its accumulator. Nothing
  bounds the number of batches an iterator returns, so the loop is a partial function:
  \<open>None\<close> is the loop that never ends. An error whose message is \<^verbatim>\<open>EOF\<close> and a batch
  with \<^verbatim>\<open>ResultCount == 0\<close> both leave the loop by \<^verbatim>\<open>break\<close>.
\<close>

partial_function (option) iteratorLoop ::
  "('it \<Rightarrow> (error + ResultSet) \<times> 'it) \<Rightarrow> (ResultSet \<Rightarrow> error + Document list) \<Rightarrow> 'it
     \<Rightarrow> Document list \<Rightarrow> (error + Document list) option" where
  "iteratorLoop nxt convert iterator allDocs =
     (case nxt iterator of
        (Inl err, iterator') \<Rightarrow>
          if errorMsg err = ''EOF'' then Some (Inr allDocs)
          else Some (Inl (wrapError ''[Retriever] iterator next failed: '' err))
      | (Inr res, iterator') \<Rightarrow>
          if ResultCount res = 0 then Some (Inr allDocs)
          else
            (case convert res of
               Inl err \<Rightarrow>
                 Some (Inl (wrapError ''[Retriever] failed to convert batch results: '' err))
             | Inr batchDocs \<Rightarrow> iteratorLoop nxt convert iterator' (allDocs @ batchDocs)))"

text \<open>\<^verbatim>\<open>Retriever.retrieveIterator\<close> (retriever.go).\<close>

definition retrieveIterator ::
  "Lib \<Rightarrow> 'it Retriever
     \<Rightarrow> (RetrieverConfig \<Rightarrow> float32 list \<Rightarrow> RetrieverOption list \<Rightarrow> error + SearchIteratorOption)
     \<Rightarrow> Options \<Rightarrow> string \<Rightarrow> RetrieverOption list \<Rightarrow> (error + Document list) option" where
  "retrieveIterator lib r BuildSearchIteratorOption co query opts =
     (case embedQuery lib (optEmbedding co) query of
        Inl err \<Rightarrow> Some (Inl err)
      | Inr queryVector \<Rightarrow>
          (case BuildSearchIteratorOption (config r) queryVector opts of
             Inl err \<Rightarrow>
               Some (Inl (wrapError ''[Retriever] failed to build search iterator option: '' err))
           | Inr iterOpt \<Rightarrow>
               (case SearchIterator (client r) iterOpt of
                  Inl err \<Rightarrow>
                    Some (Inl (wrapError ''[Retriever] failed to create search iterator: '' err))
                | Inr iterator \<Rightarrow>
                    iteratorLoop (Next (client r)) (DocumentConverter (config r)) iterator [])))"

text \<open>\<^verbatim>\<open>Retriever.retrieveStandard\<close> (retriever.go).\<close>

definition retrieveStandard ::
  "Lib \<Rightarrow> 'it Retriever
     \<Rightarrow> (RetrieverConfig \<Rightarrow> float32 list \<Rightarrow> RetrieverOption list \<Rightarrow> error + SearchOption)
     \<Rightarrow> Options \<Rightarrow> string \<Rightarrow> RetrieverOption list \<Rightarrow> error + Document list" where
  "retrieveStandard lib r BuildSearchOption co query opts =
     (case embedQuery lib (optEmbedding co) query of
        Inl err \<Rightarrow> Inl err
      | Inr queryVector \<Rightarrow>
          (case BuildSearchOption (config r) queryVector opts of
             Inl err \<Rightarrow> Inl (wrapError ''[Retriever] failed to build search option: '' err)
           | Inr searchOpt \<Rightarrow>
               (case Search (client r) searchOpt of
                  Inl err \<Rightarrow> Inl (wrapError ''[Retriever] search failed: '' err)
                | Inr results \<Rightarrow>
                    if length results = 0 then Inr []
                    else DocumentConverter (config r) (results ! 0))))"

text \<open>
  \<^verbatim>\<open>Retriever.Retrieve\<close> (retriever.go), without its callbacks. \<open>retrieveOptions\<close> is
  the \<^verbatim>\<open>co\<close> it reads from the configuration and the call options, \<open>retrieveByMode\<close>
  its type switch, and \<open>Retrieve\<close> the rest: the error returned at once, the threshold
  applied to the documents otherwise. The result is \<open>None\<close> when the iterator loop never
  ends.
\<close>

definition retrieveOptions :: "'it Retriever \<Rightarrow> RetrieverOption list \<Rightarrow> Options" where
  "retrieveOptions r opts =
     GetCommonOptions
       \<lparr>optIndex = Some (VectorField (config r)),
        optSubIndex = None,
        optTopK = Some (TopK (config r)),
        optScoreThreshold = ScoreThreshold (config r),
        optEmbedding = Embedding (config r)\<rparr>
       opts"

definition retrieveByMode ::
  "Lib \<Rightarrow> 'it Retriever \<Rightarrow> Options \<Rightarrow> string \<Rightarrow> RetrieverOption list
     \<Rightarrow> (error + Document list) option" where
  "retrieveByMode lib r co query opts =
     (case searchMode r of
        QuerySearchMode sm \<Rightarrow> Some (retrieveQuery lib r sm query opts)
      | HybridSearchMode sm \<Rightarrow> Some (retrieveHybrid lib r sm co query opts)
      | IteratorSearchMode sm \<Rightarrow> retrieveIterator lib r sm co query opts
      | StandardSearchMode sm \<Rightarrow> Some (retrieveStandard lib r sm co query opts))"

definition Retrieve ::
  "Lib \<Rightarrow> 'it Retriever \<Rightarrow> string \<Rightarrow> RetrieverOption list \<Rightarrow> (error + Document list) option" where
  "Retrieve lib r query opts =
     (let co = retrieveOptions r opts
      in case retrieveByMode lib r co query opts of
           None \<Rightarrow> None
         | Some (Inl err) \<Rightarrow> Some (Inl err)
         | Some (Inr docs) \<Rightarrow> Some (Inr (applyScoreThreshold docs (optScoreThreshold co))))"

section \<open>Approximate mode\<close>

text \<open>
  \<^verbatim>\<open>Approximate.BuildSearchOption\<close> (search_mode/approximate.go); it does not read
  its receiver. The request is built with the configuration's \<^verbatim>\<open>TopK\<close> and rebuilt
  with the call option's when that differs; partitions, filter and grouping follow.
\<close>

definition Approximate_BuildSearchOption ::
  "RetrieverConfig \<Rightarrow> float32 list \<Rightarrow> RetrieverOption list \<Rightarrow> error + SearchOption" where
  "Approximate_BuildSearchOption conf queryVector opts =
     (let io = GetImplSpecificOptions emptyImplOptions opts;
          co = GetCommonOptions (topKOptions (TopK conf)) opts;
          searchOpt =
            \<lparr>searchCollection = Collection conf, searchLimit = TopK conf,
             searchVectors = [FloatVector queryVector], searchANNSField = VectorField conf,
             searchOutputFields = OutputFields conf, searchPartitions = [],
             searchFilter = [], searchGrouping = None\<rparr>;
          searchOpt = (case optTopK co of
                         Some k \<Rightarrow> if k \<noteq> TopK conf then searchOpt\<lparr>searchLimit := k\<rparr>
                                   else searchOpt
                       | None \<Rightarrow> searchOpt);
          searchOpt = (if length (Partitions conf) > 0
                       then searchOpt\<lparr>searchPartitions := Partitions conf\<rparr> else searchOpt);
          searchOpt = (if Filter io \<noteq> [] then searchOpt\<lparr>searchFilter := Filter io\<rparr>
                       else searchOpt);
          searchOpt = (case Grouping io of
                         None \<Rightarrow> searchOpt
                       | Some g \<Rightarrow> searchOpt\<lparr>searchGrouping := Some g\<rparr>)
      in Inr searchOpt)"

section \<open>Vocabulary of the properties\<close>

text \<open>
  A sub-request whose required kind of vector was not supplied: a sparse one when the
  sparse query vector is empty, any other when the dense query vector is empty.
\<close>

definition vectorMissing :: "float32 list \<Rightarrow> (int \<times> float64) list \<Rightarrow> SubRequest \<Rightarrow> bool" where
  "vectorMissing queryVector querySparseVector req =
     (if reqVectorType req = SparseVector then length querySparseVector = 0
      else length queryVector = 0)"

text \<open>
  The sparse embedding the builder constructs from the sparse query vector: the
  conversion loop, then the library's constructor.
\<close>

definition sparseEmbeddingOf :: "Lib \<Rightarrow> (int \<times> float64) list \<Rightarrow> error + Vector" where
  "sparseEmbeddingOf lib querySparseVector =
     (case sparseLoop lib querySparseVector [] [] of
        (indices, vals) \<Rightarrow> NewSliceSparseEmbedding lib indices vals)"

text \<open>
  An iterator that, from a given state on, returns the given batches in order, each with
  a non-zero \<^verbatim>\<open>ResultCount\<close>, and then signals the end of the results: by an error
  whose message is \<^verbatim>\<open>EOF\<close> (Go's \<^verbatim>\<open>io.EOF\<close>), or by a batch of zero rows.
\<close>

fun iteratorYields :: "('it \<Rightarrow> (error + ResultSet) \<times> 'it) \<Rightarrow> 'it \<Rightarrow> ResultSet list \<Rightarrow> bool" where
  "iteratorYields nxt iterator [] =
     (case nxt iterator of
        (Inl err, iterator') \<Rightarrow> errorMsg err = ''EOF''
      | (Inr res, iterator') \<Rightarrow> ResultCount res = 0)"
| "iteratorYields nxt iterator (batch # batches) =
     (case nxt iterator of
        (Inl err, iterator') \<Rightarrow> False
      | (Inr res, iterator') \<Rightarrow>
          res = batch \<and> ResultCount batch \<noteq> 0 \<and> iteratorYields nxt iterator' batches)"

section \<open>Sample inputs\<close>

text \<open>
  Library functions for the examples. \<open>sample_unmarshal\<close> is the JSON decoder on the
  two blobs the examples use (a JSON number decodes to a \<^verbatim>\<open>float64\<close>); \<open>Sprint\<close>
  prints a string as it is, and the examples print nothing else; \<open>float32\<close> is
  \<open>F32\<close>, exact on the values the examples narrow (0.5 and 0.25).
\<close>

definition sample_unmarshal :: "bytes \<Rightarrow> (string \<rightharpoonup> any) option" where
  \<open>sample_unmarshal b =
     (if b = ''{}'' then Some Map.empty
      else if b = ''{"score":0.9}'' then Some [''score'' \<mapsto> AFloat64 (Fin (9 / 10))]
      else None)\<close>

definition sample_lib :: Lib where
  "sample_lib =
     \<lparr>float32 = F32,
      Sprint = (\<lambda>v. case v of AString s \<Rightarrow> s | _ \<Rightarrow> []),
      Unmarshal = sample_unmarshal,
      GetAsString =
        (\<lambda>data i. if i < length data
                   then (case data ! i of AString s \<Rightarrow> Some s | _ \<Rightarrow> None)
                   else None),
      NewSliceSparseEmbedding =
        (\<lambda>indices vals.
           if length indices \<noteq> length vals then Inl (Error ''invalid sparse embedding input'')
           else Inr (SparseEmbeddingVector (zip indices vals)))\<rparr>"



text \<open>
  The configuration, query vector and sub-requests of the package's tests of the
  hybrid builder (\<^verbatim>\<open>TopK: 10\<close>; a dense sub-request on \<^verbatim>\<open>vector\<close>, a sparse one on
  \<^verbatim>\<open>sparse_vector\<close>).
\<close>

definition sample_config :: RetrieverConfig where
  "sample_config =
     \<lparr>Collection = ''test_collection'', Partitions = [], VectorField = ''vector'',
      OutputFields = [''id'', ''content''], TopK = 10, ScoreThreshold = None,
      ConsistencyLevel = 0, DocumentConverter = defaultDocumentConverter sample_lib,
      Embedding = Some (\<lambda>texts. Inr (map (\<lambda>text. [Fin (1 / 2), Fin (1 / 4)]) texts)),
      SparseEmbedding = None\<rparr>"

definition dense_request :: SubRequest where
  "dense_request =
     \<lparr>reqVectorField = ''vector'', reqMetricType = ''L2'', reqTopK = 10,
      reqSearchParams = Map.empty, reqVectorType = []\<rparr>"

definition sparse_request :: SubRequest where
  "sparse_request =
     \<lparr>reqVectorField = ''sparse_vector'', reqMetricType = [], reqTopK = 10,
      reqSearchParams = Map.empty, reqVectorType = SparseVector\<rparr>"

definition sample_vector :: "float32 list" where
  "sample_vector = [F32 (Fin (1 / 2)), F32 (Fin (1 / 4))]"

text \<open>The documents of the package's test of the threshold: an id and a score.\<close>

definition scoredDoc :: "string \<Rightarrow> real \<Rightarrow> Document" where
  "scoredDoc name s = \<lparr>ID = name, Content = [], MetaData = [''score'' \<mapsto> AFloat64 (Fin s)]\<rparr>"

text \<open>
  An iterator over a list of batches that returns \<^verbatim>\<open>io.EOF\<close> at its end, a batch of
  one row with an id column, the builder of the package's mock iterator mode, and a
  retriever in iterator mode whose engine returns the batches of ids 1 and 2.
\<close>

definition listNext :: "ResultSet list \<Rightarrow> (error + ResultSet) \<times> ResultSet list" where
  "listNext iterator =
     (case iterator of
        [] \<Rightarrow> (Inl (Error ''EOF''), [])
      | res # rest \<Rightarrow> (Inr res, rest))"

definition id_batch :: "string \<Rightarrow> ResultSet" where
  "id_batch name =
     \<lparr>ResultCount = 1, Scores = [], Fields = [\<lparr>Name = ''id'', Data = [AString name]\<rparr>]\<rparr>"

definition mockBuildSearchIteratorOption ::
  "RetrieverConfig \<Rightarrow> float32 list \<Rightarrow> RetrieverOption list \<Rightarrow> error + SearchIteratorOption" where
  "mockBuildSearchIteratorOption conf queryVector opts =
     Inr \<lparr>iterCollection = Collection conf, iterVector = FloatVector queryVector,
          iterBatchSize = 3\<rparr>"

definition iterator_retriever :: "ResultSet list Retriever" where
  "iterator_retriever =
     \<lparr>client =
        \<lparr>Query = (\<lambda>opt. Inl (Error ''not called'')),
         HybridSearch = (\<lambda>opt. Inl (Error ''not called'')),
         Search = (\<lambda>opt. Inl (Error ''not called'')),
         SearchIterator = (\<lambda>opt. Inr [id_batch ''1'', id_batch ''2'']),
         Next = listNext\<rparr>,
      config = sample_config,
      searchMode = IteratorSearchMode mockBuildSearchIteratorOption\<rparr>"

text \<open>
  A result set of four rows with the scores 0.9, 0.7, 0.5, 0.3, and a retriever in
  approximate mode with threshold 0.6 whose engine returns it.
\<close>

definition scored_rows :: ResultSet where
  "scored_rows =
     \<lparr>ResultCount = 4,
      Scores = [F32 (Fin (9 / 10)), F32 (Fin (7 / 10)), F32 (Fin (5 / 10)), F32 (Fin (3 / 10))],
      Fields = [\<lparr>Name = ''id'',
                 Data = [AString ''doc1'', AString ''doc2'', AString ''doc3'',
                         AString ''doc4'']\<rparr>]\<rparr>"

definition standard_retriever :: "unit Retriever" where
  "standard_retriever =
     \<lparr>client =
        \<lparr>Query = (\<lambda>opt. Inl (Error ''not called'')),
         HybridSearch = (\<lambda>opt. Inl (Error ''not called'')),
         Search = (\<lambda>opt. Inr [scored_rows]),
         SearchIterator = (\<lambda>opt. Inl (Error ''not called'')),
         Next = (\<lambda>iterator. (Inl (Error ''EOF''), iterator))\<rparr>,
      config = sample_config\<lparr>ScoreThreshold := Some (Fin (6 / 10))\<rparr>,
      searchMode = StandardSearchMode Approximate_BuildSearchOption\<rparr>"



section \<open>Properties of the score threshold\<close>

lemma scoreLoop_filter:
  "scoreLoop docs t filtered = filtered @ filter (scoreAtLeast t) docs"
proof (induction docs arbitrary: filtered)
  case Nil
  show ?case by simp
next
  case (Cons doc docs)
  show ?case
    by (cases "MetaData doc ''score''")
       (auto simp: Cons.IH scoreAtLeast_def split: any.splits)
qed

lemma applyScoreThreshold_Some:
  "applyScoreThreshold docs (Some t) = filter (scoreAtLeast t) docs"
  by (simp add: applyScoreThreshold_def scoreLoop_filter)

lemma applyScoreThreshold_None: "applyScoreThreshold docs None = docs"
  by (simp add: applyScoreThreshold_def)

text \<open>
  C9. Score-threshold filtering is idempotent: applying \<open>applyScoreThreshold\<close> with a
  threshold to a list it already produced with the same threshold (or with none, both
  times) returns that list unchanged.
\<close>

theorem C9_applyScoreThreshold_idempotent:
  "applyScoreThreshold (applyScoreThreshold docs threshold) threshold
     = applyScoreThreshold docs threshold"
proof (cases threshold)
  case None
  then show ?thesis by (simp add: applyScoreThreshold_None)
next
  case (Some t)
  then show ?thesis by (simp add: applyScoreThreshold_Some)
qed

lemma scoreAtLeast_scoredDoc: "scoreAtLeast (Fin t) (scoredDoc name s) = (t \<le> s)"
  by (simp add: scoreAtLeast_def scoredDoc_def)

lemma scoreAtLeast_WithScore: "scoreAtLeast t (WithScore doc s) = scoreAtLeast t doc"
  by (simp add: scoreAtLeast_def WithScore_def)

lemma convertRow_fold:
  "fold (\<lambda>i docs. docs @ [convertRow lib rs i]) idxs docs = docs @ map (convertRow lib rs) idxs"
  by (induction idxs arbitrary: docs) auto

lemma defaultDocumentConverter_rows:
  "defaultDocumentConverter lib rs = Inr (map (convertRow lib rs) [0..<ResultCount rs])"
  by (simp add: defaultDocumentConverter_def convertRow_fold)

lemma narrowLoop_aux:
  "length vec \<le> length qv \<Longrightarrow>
   fold (\<lambda>(i, v) queryVector. queryVector[i := f v]) (zip [0..<length vec] vec) qv
     = map f vec @ drop (length vec) qv"
proof (induction vec rule: rev_induct)
  case Nil
  show ?case by simp
next
  case (snoc x xs)
  then have len: "length xs < length qv" by simp
  have z: "zip [0..<length (xs @ [x])] (xs @ [x]) = zip [0..<length xs] xs @ [(length xs, x)]"
    by simp
  have "fold (\<lambda>(i, v) queryVector. queryVector[i := f v]) (zip [0..<length (xs @ [x])] (xs @ [x])) qv
        = (map f xs @ drop (length xs) qv)[length xs := f x]"
    using snoc.IH len by (simp only: z fold_append comp_apply) simp
  also have "\<dots> = map f xs @ (drop (length xs) qv)[0 := f x]"
    by (simp add: list_update_append)
  also have "(drop (length xs) qv)[0 := f x] = f x # drop (Suc (length xs)) qv"
    using len by (metis Cons_nth_drop_Suc list_update_code(2))
  finally show ?case by simp
qed

lemma narrowLoop_map: "narrowLoop lib vec = map (float32 lib) vec"
  using narrowLoop_aux[of vec "replicate (length vec) (F32 (Fin 0))" "float32 lib"]
  by (simp add: narrowLoop_def)

lemma convert_scored_rows:
  "map (convertRow sample_lib scored_rows) [0, 1, 2, 3]
     = [WithScore (scoredDoc ''doc1'' (9 / 10)) (Fin (9 / 10)),
        WithScore (scoredDoc ''doc2'' (7 / 10)) (Fin (7 / 10)),
        WithScore (scoredDoc ''doc3'' (5 / 10)) (Fin (5 / 10)),
        WithScore (scoredDoc ''doc4'' (3 / 10)) (Fin (3 / 10))]"
  by (simp add: convertRow_def scored_rows_def convertField_def Get_def newRowDocument_def
        WithScore_def scoredDoc_def)

lemma upt_4: "[0..<4] = [0, 1, 2, 3::nat]"
  by (simp add: upt_rec)

lemma standard_example:
  "Retrieve sample_lib standard_retriever ''test query'' []
     = Some (Inr [WithScore (scoredDoc ''doc1'' (9 / 10)) (Fin (9 / 10)),
                  WithScore (scoredDoc ''doc2'' (7 / 10)) (Fin (7 / 10))])"
proof -
  have e: "embedQuery sample_lib (Embedding sample_config) ''test query''
             = Inr [F32 (Fin (1 / 2)), F32 (Fin (1 / 4))]"
    by (simp add: sample_config_def sample_lib_def embedQuery_def narrowLoop_map)
  have c: "defaultDocumentConverter sample_lib scored_rows
             = Inr (map (convertRow sample_lib scored_rows) [0, 1, 2, 3])"
    by (simp add: defaultDocumentConverter_rows upt_4 scored_rows_def)
  have b: "\<exists>opt. Approximate_BuildSearchOption conf qv [] = Inr opt" for conf qv
    by (simp add: Approximate_BuildSearchOption_def Let_def)
  have r: "retrieveByMode sample_lib standard_retriever
             (retrieveOptions standard_retriever []) ''test query'' []
           = Some (Inr (map (convertRow sample_lib scored_rows) [0, 1, 2, 3]))"
    using e c b[of "config standard_retriever" "[F32 (Fin (1 / 2)), F32 (Fin (1 / 4))]"]
    by (auto simp: retrieveByMode_def retrieveStandard_def retrieveOptions_def
          GetCommonOptions_def standard_retriever_def sample_config_def)
  have t: "optScoreThreshold (retrieveOptions standard_retriever []) = Some (Fin (6 / 10))"
    by (simp add: retrieveOptions_def GetCommonOptions_def standard_retriever_def)
  show ?thesis
    unfolding Retrieve_def Let_def r t convert_scored_rows
    by (simp add: applyScoreThreshold_Some scoreAtLeast_WithScore scoreAtLeast_scoredDoc)
qed

text \<open>
  C3. With a threshold \<open>t\<close>, \<open>applyScoreThreshold\<close> returns the documents whose score
  metadata entry is a \<^verbatim>\<open>float64\<close> at or above \<open>t\<close>, in their order (a document with
  no such entry, or one below \<open>t\<close>, is dropped); with no threshold it returns the list
  unchanged. \<open>Retrieve\<close> returns the documents of the mode that ran with the threshold
  of the resolved options applied to them, once, whatever the mode; an error or a loop
  that does not end is passed on. Threshold 0.6 over the scores 0.9, 0.7, 0.5, 0.3 keeps
  the first two documents, in order, also end to end: a retriever with threshold 0.6 whose
  engine returns four rows with these scores returns the documents of the first two.
\<close>

theorem C3_score_threshold:
  "applyScoreThreshold docs (Some t) = filter (scoreAtLeast t) docs
   \<and> applyScoreThreshold docs None = docs
   \<and> Retrieve lib r query opts =
       map_option
         (map_sum id
            (\<lambda>docs. applyScoreThreshold docs (optScoreThreshold (retrieveOptions r opts))))
         (retrieveByMode lib r (retrieveOptions r opts) query opts)
   \<and> applyScoreThreshold
         [scoredDoc ''doc1'' (9 / 10), scoredDoc ''doc2'' (7 / 10),
          scoredDoc ''doc3'' (5 / 10), scoredDoc ''doc4'' (3 / 10)]
         (Some (Fin (6 / 10)))
       = [scoredDoc ''doc1'' (9 / 10), scoredDoc ''doc2'' (7 / 10)]
   \<and> Retrieve sample_lib standard_retriever ''test query'' []
       = Some (Inr [WithScore (scoredDoc ''doc1'' (9 / 10)) (Fin (9 / 10)),
                    WithScore (scoredDoc ''doc2'' (7 / 10)) (Fin (7 / 10))])"
proof (intro conjI)
  show "applyScoreThreshold docs (Some t) = filter (scoreAtLeast t) docs"
    by (rule applyScoreThreshold_Some)
  show "applyScoreThreshold docs None = docs"
    by (rule applyScoreThreshold_None)
  show "Retrieve lib r query opts =
       map_option
         (map_sum id
            (\<lambda>docs. applyScoreThreshold docs (optScoreThreshold (retrieveOptions r opts))))
         (retrieveByMode lib r (retrieveOptions r opts) query opts)"
    by (simp add: Retrieve_def Let_def split: option.splits sum.splits)
  show "applyScoreThreshold
         [scoredDoc ''doc1'' (9 / 10), scoredDoc ''doc2'' (7 / 10),
          scoredDoc ''doc3'' (5 / 10), scoredDoc ''doc4'' (3 / 10)]
         (Some (Fin (6 / 10)))
       = [scoredDoc ''doc1'' (9 / 10), scoredDoc ''doc2'' (7 / 10)]"
    by (simp add: applyScoreThreshold_Some scoreAtLeast_scoredDoc)
  show "Retrieve sample_lib standard_retriever ''test query'' []
       = Some (Inr [WithScore (scoredDoc ''doc1'' (9 / 10)) (Fin (9 / 10)),
                    WithScore (scoredDoc ''doc2'' (7 / 10)) (Fin (7 / 10))])"
    by (rule standard_example)
qed

section \<open>Properties of the embedding step\<close>

text \<open>
  C6. \<open>embedQuery\<close> returns an error exactly when no embedder is given, or the
  embedder returns an error, or it returns a number of vectors other than one; when it
  returns one vector, the result is that vector with every element narrowed by
  \<^verbatim>\<open>float32(v)\<close>, each on its own.
\<close>

theorem C6_embedQuery:
  "((\<exists>err. embedQuery lib emb query = Inl err) =
      (emb = None \<or>
       (\<exists>embedStrings. emb = Some embedStrings \<and>
          ((\<exists>err. embedStrings [query] = Inl err) \<or>
           (\<exists>vectors. embedStrings [query] = Inr vectors \<and> length vectors \<noteq> 1)))))
   \<and> (\<forall>embedStrings vec. emb = Some embedStrings \<and> embedStrings [query] = Inr [vec] \<longrightarrow>
          embedQuery lib emb query = Inr (map (float32 lib) vec))"
  by (auto simp: embedQuery_def narrowLoop_map split: option.splits sum.splits)

theorem C6_witness:
  "embedQuery sample_lib (Embedding sample_config) ''test query''
     = Inr [F32 (Fin (1 / 2)), F32 (Fin (1 / 4))]"
  using C6_embedQuery[of sample_lib "Embedding sample_config" "''test query''"]
  by (simp add: sample_config_def sample_lib_def)

section \<open>Properties of the converters\<close>










section \<open>Properties of the scalar mode\<close>

text \<open>
  C4. \<open>Scalar.BuildQueryOption\<close> always returns a request, and its filter expression,
  for the query \<open>q\<close> and the filter \<open>f\<close> of the call options, is \<open>f\<close> when \<open>q\<close> is
  empty (so empty when both are), \<open>q\<close> when \<open>f\<close> is empty, and \<^verbatim>\<open>(q) and (f)\<close> when
  neither is.
\<close>

theorem C4_scalar_filter_expression:
  "\<exists>qo. Scalar_BuildQueryOption conf q opts = Inr qo \<and>
     queryExpr qo =
       (let f = Filter (GetImplSpecificOptions emptyImplOptions opts)
        in if q = [] then f
           else if f = [] then q
           else ''('' @ q @ '') and ('' @ f @ '')'')"
  by (simp add: Scalar_BuildQueryOption_def scalarExpr_def Let_def)

section \<open>Properties of the hybrid mode\<close>

text \<open>
  C8. \<open>Hybrid.BuildSearchOption\<close> returns an error, and no request, for every
  configuration, query vector and list of call options; the message names the builder
  to use instead.
\<close>

theorem C8_hybrid_BuildSearchOption_error:
  "Hybrid_BuildSearchOption h conf queryVector opts
     = Inl (Error ''Hybrid search mode requires BuildHybridSearchOption'')"
  by (simp add: Hybrid_BuildSearchOption_def)

lemma annLoop_skip:
  "annLoop lib conf io qv qsv reqs acc
     = annLoop lib conf io qv qsv (filter (\<lambda>req. \<not> vectorMissing qv qsv req) reqs) acc"
  by (induction reqs arbitrary: acc)
     (auto simp: vectorMissing_def split: prod.splits sum.splits)

lemma annLoop_built:
  assumes "\<forall>req \<in> set reqs. reqVectorType req = SparseVector \<longrightarrow> qsv \<noteq> [] \<longrightarrow>
             sparseEmbeddingOf lib qsv = Inr emb"
  shows "annLoop lib conf io qv qsv reqs acc
           = Inr (acc @ map (\<lambda>req. decorate req io
                                (NewAnnRequest (reqField conf req) (reqLimit req)
                                   (if reqVectorType req = SparseVector then emb
                                    else FloatVector qv)))
                          (filter (\<lambda>req. \<not> vectorMissing qv qsv req) reqs))"
  using assms
  by (induction reqs arbitrary: acc)
     (auto simp: vectorMissing_def sparseEmbeddingOf_def split: prod.splits sum.splits)

lemma annField_decorate: "annField (decorate req io annReq) = annField annReq"
  by (simp add: decorate_def Let_def split: option.splits)

text \<open>
  C5. The sub-requests whose required kind of vector was not supplied are left out of
  the hybrid request and cause no error: the builder returns what it returns for the
  mode without them. When the sparse embedding can be constructed wherever one is needed
  (a sparse sub-request with a sparse vector supplied), the build succeeds, and the
  aggregated request holds, in order, one sub-request for each configured sub-request
  whose vector was supplied, and no other.
\<close>

theorem C5_hybrid_skips_missing_vectors:
  "Hybrid_BuildHybridSearchOption lib h conf qv qsv opts
     = Hybrid_BuildHybridSearchOption lib
         (h\<lparr>SubRequests := filter (\<lambda>req. \<not> vectorMissing qv qsv req) (SubRequests h)\<rparr>)
         conf qv qsv opts
   \<and> ((\<forall>req \<in> set (SubRequests h). reqVectorType req = SparseVector \<longrightarrow> qsv \<noteq> [] \<longrightarrow>
          sparseEmbeddingOf lib qsv = Inr emb) \<longrightarrow>
        (\<exists>opt. Hybrid_BuildHybridSearchOption lib h conf qv qsv opts = Inr opt
           \<and> hybridRequests opt =
               map (\<lambda>req. decorate req (GetImplSpecificOptions emptyImplOptions opts)
                             (NewAnnRequest (reqField conf req) (reqLimit req)
                                (if reqVectorType req = SparseVector then emb
                                 else FloatVector qv)))
                   (filter (\<lambda>req. \<not> vectorMissing qv qsv req) (SubRequests h))))"
proof (intro conjI impI)
  show "Hybrid_BuildHybridSearchOption lib h conf qv qsv opts
     = Hybrid_BuildHybridSearchOption lib
         (h\<lparr>SubRequests := filter (\<lambda>req. \<not> vectorMissing qv qsv req) (SubRequests h)\<rparr>)
         conf qv qsv opts"
    by (cases "annLoop lib conf (GetImplSpecificOptions emptyImplOptions opts) qv qsv
                 (filter (\<lambda>req. \<not> vectorMissing qv qsv req) (SubRequests h)) []")
       (simp_all add: Hybrid_BuildHybridSearchOption_def hybridFinalTopK_def
          annLoop_skip[of lib conf _ qv qsv "SubRequests h"] split: option.splits)
next
  assume "\<forall>req \<in> set (SubRequests h). reqVectorType req = SparseVector \<longrightarrow> qsv \<noteq> [] \<longrightarrow>
            sparseEmbeddingOf lib qsv = Inr emb"
  from annLoop_built[OF this, of conf "GetImplSpecificOptions emptyImplOptions opts" qv "[]"]
  show "\<exists>opt. Hybrid_BuildHybridSearchOption lib h conf qv qsv opts = Inr opt
           \<and> hybridRequests opt =
               map (\<lambda>req. decorate req (GetImplSpecificOptions emptyImplOptions opts)
                             (NewAnnRequest (reqField conf req) (reqLimit req)
                                (if reqVectorType req = SparseVector then emb
                                 else FloatVector qv)))
                   (filter (\<lambda>req. \<not> vectorMissing qv qsv req) (SubRequests h))"
    by (simp add: Hybrid_BuildHybridSearchOption_def Let_def)
qed

theorem C5_witness:
  "map_sum id (\<lambda>opt. map annField (hybridRequests opt))
     (Hybrid_BuildHybridSearchOption sample_lib
        \<lparr>SubRequests = [sparse_request, dense_request], hybridReranker = RRFReranker,
         hybridTopK = 0\<rparr>
        sample_config sample_vector [] [])
     = Inr [''vector'']"
proof -
  let ?h = "\<lparr>SubRequests = [sparse_request, dense_request], hybridReranker = RRFReranker,
             hybridTopK = 0\<rparr>"
  have supplied:
    "\<forall>req \<in> set (SubRequests ?h). reqVectorType req = SparseVector \<longrightarrow>
       ([] :: (int \<times> float64) list) \<noteq> [] \<longrightarrow>
       sparseEmbeddingOf sample_lib [] = Inr (FloatVector [])"
    by simp
  from C5_hybrid_skips_missing_vectors[of sample_lib ?h sample_config sample_vector "[]" "[]"
         "FloatVector []"] supplied
  obtain opt where
    built: "Hybrid_BuildHybridSearchOption sample_lib ?h sample_config sample_vector [] []
              = Inr opt"
    and reqs: "hybridRequests opt =
       map (\<lambda>req. decorate req (GetImplSpecificOptions emptyImplOptions [])
                     (NewAnnRequest (reqField sample_config req) (reqLimit req)
                        (if reqVectorType req = SparseVector then FloatVector []
                         else FloatVector sample_vector)))
           (filter (\<lambda>req. \<not> vectorMissing sample_vector [] req) (SubRequests ?h))"
    by blast
  have "map annField (hybridRequests opt) = [''vector'']"
    unfolding reqs
    by (simp add: annField_decorate vectorMissing_def sparse_request_def dense_request_def
          sample_vector_def SparseVector_def NewAnnRequest_def reqField_def)
  with built show ?thesis by simp
qed

lemma GetCommonOptions_topK:
  "optTopK base \<noteq> None \<Longrightarrow> optTopK (GetCommonOptions base opts) \<noteq> None"
  unfolding GetCommonOptions_def
proof (induction opts arbitrary: base)
  case Nil
  then show ?case by simp
next
  case (Cons opt opts)
  then show ?case by (cases opt) auto
qed

lemma hybridFinalTopK_common:
  "hybridFinalTopK h conf (GetCommonOptions (topKOptions (TopK conf)) opts)
     = the (optTopK (GetCommonOptions (topKOptions (TopK conf)) opts))"
  using GetCommonOptions_topK[of "topKOptions (TopK conf)" opts]
  by (auto simp: hybridFinalTopK_def topKOptions_def Let_def split: option.splits)

text \<open>
  C1. The code at the failing input: with the configuration's \<^verbatim>\<open>TopK\<close> 10, the mode's
  \<^verbatim>\<open>TopK\<close> 50 and no call option, the hybrid request is built with limit 10. The base
  of the common options always holds the configuration's \<^verbatim>\<open>TopK\<close>
  (\<open>GetCommonOptions_topK\<close>), so the last of the three statements always overwrites
  the mode's value (\<open>hybridFinalTopK_common\<close>).
\<close>

theorem C1_mode_level_topk_ignored:
  "map_sum id hybridLimit
     (Hybrid_BuildHybridSearchOption sample_lib
        \<lparr>SubRequests = [dense_request], hybridReranker = RRFReranker, hybridTopK = 50\<rparr>
        sample_config sample_vector [] [])
     = Inr 10"
  by (simp add: Hybrid_BuildHybridSearchOption_def hybridFinalTopK_def GetCommonOptions_def
        topKOptions_def sample_config_def dense_request_def sample_vector_def Let_def)

section \<open>Properties of the iterator mode\<close>

lemma iteratorLoop_batches:
  "iteratorYields nxt iterator batches \<Longrightarrow> map convert batches = map Inr batchDocs \<Longrightarrow>
     iteratorLoop nxt convert iterator allDocs = Some (Inr (allDocs @ concat batchDocs))"
proof (induction batches arbitrary: iterator allDocs batchDocs)
  case Nil
  then show ?case
    by (subst iteratorLoop.simps) (auto split: prod.splits sum.splits)
next
  case (Cons batch batches)
  from Cons.prems(2) obtain docs rest where
    bd: "batchDocs = docs # rest" and c: "convert batch = Inr docs"
    and r: "map convert batches = map Inr rest"
    by (cases batchDocs) auto
  from Cons.prems(1) obtain iterator' where
    n: "nxt iterator = (Inr batch, iterator')" and nz: "ResultCount batch \<noteq> 0"
    and y: "iteratorYields nxt iterator' batches"
    by (auto split: prod.splits sum.splits)
  have "iteratorLoop nxt convert iterator allDocs
          = iteratorLoop nxt convert iterator' (allDocs @ docs)"
    by (subst iteratorLoop.simps) (simp add: n nz c)
  also have "\<dots> = Some (Inr ((allDocs @ docs) @ concat rest))"
    by (rule Cons.IH[OF y r])
  finally show ?case by (simp add: bd)
qed

lemma convertRow_id_batch: "ID (convertRow sample_lib (id_batch name) 0) = name"
  by (simp add: convertRow_def id_batch_def convertField_def Get_def newRowDocument_def)

text \<open>
  C7. In iterator mode, when the query is embedded, the request built and the iterator
  opened, and the iterator returns a sequence of batches of non-zero row count and then
  signals the end (by the error \<^verbatim>\<open>EOF\<close> or by a batch of zero rows), retrieval ends
  and returns, with no error, the concatenation of the converted documents of the
  batches in the order they arrived.
\<close>

theorem C7_iterator_batches_in_order:
  assumes "embedQuery lib (optEmbedding co) query = Inr queryVector"
    and "BuildSearchIteratorOption (config r) queryVector opts = Inr iterOpt"
    and "SearchIterator (client r) iterOpt = Inr iterator"
    and "iteratorYields (Next (client r)) iterator batches"
    and "map (DocumentConverter (config r)) batches = map Inr batchDocs"
  shows "retrieveIterator lib r BuildSearchIteratorOption co query opts
           = Some (Inr (concat batchDocs))"
  using iteratorLoop_batches[OF assms(4) assms(5), of "[]"] assms(1-3)
  by (simp add: retrieveIterator_def)

theorem C7_witness:
  "map_option (map_sum id (map ID))
     (retrieveIterator sample_lib iterator_retriever mockBuildSearchIteratorOption
        (retrieveOptions iterator_retriever []) ''test query'' [])
     = Some (Inr [''1'', ''2''])"
proof -
  let ?co = "retrieveOptions iterator_retriever []"
  let ?qv = "[F32 (Fin (1 / 2)), F32 (Fin (1 / 4))]"
  let ?opt = "\<lparr>iterCollection = ''test_collection'', iterVector = FloatVector ?qv,
               iterBatchSize = 3\<rparr>"
  let ?docs = "[[convertRow sample_lib (id_batch ''1'') 0],
                [convertRow sample_lib (id_batch ''2'') 0]]"
  have e: "embedQuery sample_lib (optEmbedding ?co) ''test query'' = Inr ?qv"
    by (simp add: retrieveOptions_def GetCommonOptions_def iterator_retriever_def
          sample_config_def embedQuery_def narrowLoop_def sample_lib_def)
  have b: "mockBuildSearchIteratorOption (config iterator_retriever) ?qv [] = Inr ?opt"
    by (simp add: mockBuildSearchIteratorOption_def iterator_retriever_def sample_config_def)
  have s: "SearchIterator (client iterator_retriever) ?opt
             = Inr [id_batch ''1'', id_batch ''2'']"
    by (simp add: iterator_retriever_def)
  have y: "iteratorYields (Next (client iterator_retriever))
             [id_batch ''1'', id_batch ''2''] [id_batch ''1'', id_batch ''2'']"
    by (simp add: iterator_retriever_def listNext_def id_batch_def)
  have c: "map (DocumentConverter (config iterator_retriever))
             [id_batch ''1'', id_batch ''2''] = map Inr ?docs"
    by (simp add: iterator_retriever_def sample_config_def defaultDocumentConverter_rows
          id_batch_def)
  from C7_iterator_batches_in_order[where BuildSearchIteratorOption = mockBuildSearchIteratorOption
         and r = iterator_retriever, OF e b s y c]
  show ?thesis by (simp add: convertRow_id_batch)
qed

section \<open>Properties of the scalar mode under a threshold\<close>









end
